theory Spec2Isabelle
  imports Main
begin

section \<open>Values of the host language\<close>

text \<open>
  The error mapper takes an argument of type \<open>unknown\<close>. The values it can tell apart
  are modelled by \<open>js_value\<close>: \<open>typeof\<close> is \<open>"string"\<close> on \<open>JString\<close> only, and
  \<open>"object"\<close> on \<open>JNull\<close>, \<open>JObject\<close> and \<open>JArray\<close>. Strings are lists of 8-bit
  characters, so the model covers the code units below 256.
\<close>

datatype js_value =
    JUndefined
  | JNull
  | JBoolean bool
  | JNumber int
  | JString string
  | JObject "(string \<times> js_value) list"
  | JArray "js_value list"

text \<open>
  An error object is the constructor that built it and the arguments it was called with:
  \<open>UnauthorizedException\<close> and \<open>ForbiddenException\<close> of the web framework,
  \<open>GraphQLError\<close> of the optional graphql package (one or two arguments),
  \<open>WsException\<close> of the optional websockets package, and the built-in \<open>Error\<close>.
\<close>

datatype js_error =
    UnauthorizedException js_value
  | ForbiddenException js_value
  | GraphQLError js_value "js_value option"
  | WsException js_value
  | Error string

text \<open>The status code the web framework gives its two exception classes.\<close>

fun getStatus :: "js_error \<Rightarrow> nat option" where
  "getStatus (UnauthorizedException b) = Some 401"
| "getStatus (ForbiddenException b) = Some 403"
| "getStatus e = None"

section \<open>Sessions, roles and the request view\<close>

text \<open>
  \<open>role?: string | string[]\<close>: absent, one string (possibly comma-separated), or an
  array of strings.
\<close>

datatype role_value = RoleUndefined | RoleString string | RoleArray "string list"

record User =
  role :: role_value

record SessionData =
  activeOrganizationId :: "string option"

record UserSession =
  user :: User
  session :: "SessionData option"

record Member =
  member_role :: role_value

type_synonym node_headers = "(string \<times> string) list"
type_synonym web_headers = "(string \<times> string) list"

record Handshake =
  handshake_headers :: "node_headers option"

text \<open>
  The request view returned by \<open>getRequestFromContext\<close>: the HTTP request, the request
  under a GraphQL context, or the socket of a message context. \<open>req_session\<close> and
  \<open>req_user\<close> are its \<open>session\<close> and \<open>user\<close> slots.
\<close>

record Request =
  req_headers :: "node_headers option"
  req_handshake :: "Handshake option"
  req_session :: "UserSession option"
  req_user :: "User option"

section \<open>Role matching\<close>

text \<open>\<open>String.prototype.split(",")\<close>: every comma separates; the empty string gives one
  empty piece.\<close>

fun split :: "char \<Rightarrow> string \<Rightarrow> string list" where
  "split c [] = [[]]"
| "split c (x # xs) =
     (let r = split c xs in if x = c then [] # r else (x # hd r) # tl r)"

text \<open>The white space and line terminators that \<open>String.prototype.trim\<close> removes, among
  the code units below 256: TAB, LF, VT, FF, CR, SP and NBSP.\<close>

definition is_ws :: "char \<Rightarrow> bool" where
  "is_ws c = ((of_char c :: nat) \<in> set [9, 10, 11, 12, 13, 32, 160])"

definition trim :: "string \<Rightarrow> string" where
  "trim s = rev (dropWhile is_ws (rev (dropWhile is_ws s)))"

definition array_includes :: "'a list \<Rightarrow> 'a \<Rightarrow> bool" where
  "array_includes xs x = (x \<in> set xs)"

definition array_some :: "'a list \<Rightarrow> ('a \<Rightarrow> bool) \<Rightarrow> bool" where
  "array_some xs p = list_ex p xs"

fun matchesRequiredRole :: "role_value \<Rightarrow> string list \<Rightarrow> bool" where
  "matchesRequiredRole RoleUndefined requiredRoles = False"
| "matchesRequiredRole (RoleArray rs) requiredRoles =
     array_some rs (\<lambda>r. array_includes requiredRoles r)"
| "matchesRequiredRole (RoleString s) requiredRoles =
     (if s = [] then False
      else array_some (split (CHR '','') s) (\<lambda>r. array_includes requiredRoles (trim r)))"

definition checkUserRole :: "UserSession \<Rightarrow> string list \<Rightarrow> bool" where
  "checkUserRole sess requiredRoles = matchesRequiredRole (role (user sess)) requiredRoles"

section \<open>The environment of the guard\<close>

text \<open>
  The identity provider's API. \<open>getSession\<close> resolves to a session or to \<open>null\<close>, or
  rejects. The two organization operations exist only when the organization plugin
  provides them (\<open>typeof ... === "function"\<close>); each resolves to a member object or to
  nothing, or rejects.
\<close>

record AuthApi =
  getSession :: "web_headers \<Rightarrow> js_error + UserSession option"
  getActiveMemberRole :: "(web_headers \<Rightarrow> js_error + Member option) option"
  getActiveMember :: "(web_headers \<Rightarrow> js_error + Member option) option"

text \<open>
  What the guard is constructed with and what its module can load: the provider's API
  (\<open>this.options.auth.api\<close>), the header conversion \<open>fromNodeHeaders\<close> of the provider's
  package, and whether \<open>require("graphql")\<close> and \<open>require("@nestjs/websockets")\<close>
  succeed.
\<close>

record Env =
  api :: AuthApi
  fromNodeHeaders :: "node_headers \<Rightarrow> web_headers"
  graphql_loadable :: bool
  websockets_loadable :: bool

text \<open>
  The metadata a decorator target carries under the four keys the guard reads, and the
  framework reflector's \<open>getAllAndOverride\<close>: the value of the first target, in the
  order given, that has one.
\<close>

record Metadata =
  PUBLIC :: "bool option"
  OPTIONAL :: "bool option"
  ROLES :: "string list option"
  ORG_ROLES :: "string list option"

fun getAllAndOverride :: "(Metadata \<Rightarrow> 'a option) \<Rightarrow> Metadata list \<Rightarrow> 'a option" where
  "getAllAndOverride key [] = None"
| "getAllAndOverride key (t # ts) =
     (case key t of Some v \<Rightarrow> Some v | None \<Rightarrow> getAllAndOverride key ts)"

datatype ContextType = Http | Graphql | Ws | Rpc

datatype AuthErrorType = UNAUTHORIZED | FORBIDDEN

text \<open>
  The execution context: its transport kind, the metadata of the handler and of its
  class, and the request view that \<open>getRequestFromContext\<close> (of \<open>utils.ts\<close>) extracts
  from it, which the model takes as given.
\<close>

record ExecutionContext =
  getType :: ContextType
  getHandler :: Metadata
  getClass :: Metadata
  getRequestFromContext :: Request

section \<open>The error mapper\<close>

definition getGraphQLError :: "Env \<Rightarrow> js_error + unit" where
  "getGraphQLError env =
     (if graphql_loadable env then Inr ()
      else Inl (Error ''graphql is required for GraphQL support. Please install it: npm install graphql''))"

definition getWsException :: "Env \<Rightarrow> js_error + unit" where
  "getWsException env =
     (if websockets_loadable env then Inr ()
      else Inl (Error ''@nestjs/websockets is required for WebSocket support. Please install it: npm install @nestjs/websockets @nestjs/platform-socket.io''))"

text \<open>\<open>a ?? b\<close>: \<open>b\<close> when \<open>a\<close> is \<open>undefined\<close> or \<open>null\<close>.\<close>

fun nullish :: "js_value \<Rightarrow> bool" where
  "nullish JUndefined = True"
| "nullish JNull = True"
| "nullish v = False"

definition coalesce :: "js_value \<Rightarrow> js_value \<Rightarrow> js_value" where
  "coalesce a b = (if nullish a then b else a)"

text \<open>\<open>args?.message\<close> on a value whose \<open>typeof\<close> is \<open>"object"\<close>.\<close>

fun message_of :: "js_value \<Rightarrow> js_value" where
  "message_of (JObject props) =
     (case map_of props ''message'' of Some v \<Rightarrow> v | None \<Rightarrow> JUndefined)"
| "message_of v = JUndefined"

fun typeof_object :: "js_value \<Rightarrow> bool" where
  "typeof_object JNull = True"
| "typeof_object (JObject props) = True"
| "typeof_object (JArray vs) = True"
| "typeof_object v = False"

definition graphql_error :: "string \<Rightarrow> js_value \<Rightarrow> js_error" where
  "graphql_error dflt args =
     (case args of
        JString s \<Rightarrow> GraphQLError (JString s) None
      | _ \<Rightarrow> if typeof_object args
             then GraphQLError (coalesce (message_of args) (JString dflt)) (Some args)
             else GraphQLError (JString dflt) None)"

text \<open>
  \<open>AuthContextErrorMap[ctxType].KIND(args)\<close>: \<open>Inr\<close> the error object the entry returns,
  \<open>Inl\<close> the error it throws when the optional package cannot be loaded. A call without
  an argument passes \<open>JUndefined\<close>.
\<close>

fun AuthContextErrorMap ::
  "Env \<Rightarrow> ContextType \<Rightarrow> AuthErrorType \<Rightarrow> js_value \<Rightarrow> js_error + js_error" where
  "AuthContextErrorMap env Http UNAUTHORIZED args =
     Inr (UnauthorizedException
       (coalesce args (JObject [(''code'', JString ''UNAUTHORIZED''),
                                (''message'', JString ''Unauthorized'')])))"
| "AuthContextErrorMap env Http FORBIDDEN args =
     Inr (ForbiddenException
       (coalesce args (JObject [(''code'', JString ''FORBIDDEN''),
                                (''message'', JString ''Insufficient permissions'')])))"
| "AuthContextErrorMap env Graphql UNAUTHORIZED args =
     (case getGraphQLError env of
        Inl e \<Rightarrow> Inl e
      | Inr c \<Rightarrow> Inr (graphql_error ''Unauthorized'' args))"
| "AuthContextErrorMap env Graphql FORBIDDEN args =
     (case getGraphQLError env of
        Inl e \<Rightarrow> Inl e
      | Inr c \<Rightarrow> Inr (graphql_error ''Forbidden'' args))"
| "AuthContextErrorMap env Ws UNAUTHORIZED args =
     (case getWsException env of
        Inl e \<Rightarrow> Inl e
      | Inr c \<Rightarrow> Inr (WsException (coalesce args (JString ''UNAUTHORIZED''))))"
| "AuthContextErrorMap env Ws FORBIDDEN args =
     (case getWsException env of
        Inl e \<Rightarrow> Inl e
      | Inr c \<Rightarrow> Inr (WsException (coalesce args (JString ''FORBIDDEN''))))"
| "AuthContextErrorMap env Rpc UNAUTHORIZED args = Inr (Error ''UNAUTHORIZED'')"
| "AuthContextErrorMap env Rpc FORBIDDEN args = Inr (Error ''FORBIDDEN'')"

text \<open>What \<open>throw AuthContextErrorMap[ctxType].KIND()\<close> raises.\<close>

definition thrown :: "Env \<Rightarrow> ContextType \<Rightarrow> AuthErrorType \<Rightarrow> js_error" where
  "thrown env ctxType k =
     (case AuthContextErrorMap env ctxType k JUndefined of Inl e \<Rightarrow> e | Inr e \<Rightarrow> e)"

section \<open>The guard\<close>

text \<open>
  What an invocation does to the world is recorded in a trace: the calls to the identity
  provider, the reads of the reflector (by metadata key), and \<open>console.error\<close>.
\<close>

datatype Event =
    GetSessionCall web_headers
  | GetActiveMemberRoleCall web_headers
  | GetActiveMemberCall web_headers
  | ReflectorGet string
  | ConsoleError js_error

record GuardState =
  view :: Request
  trace :: "Event list"

text \<open>\<open>request.headers || request?.handshake?.headers || []\<close>\<close>

definition requestHeaders :: "Request \<Rightarrow> node_headers" where
  "requestHeaders request =
     (case req_headers request of
        Some h \<Rightarrow> h
      | None \<Rightarrow>
         (case req_handshake request of
            Some hs \<Rightarrow> (case handshake_headers hs of Some h \<Rightarrow> h | None \<Rightarrow> [])
          | None \<Rightarrow> []))"

text \<open>\<open>result?.role\<close>\<close>

definition role_of_member :: "Member option \<Rightarrow> role_value" where
  "role_of_member result = (case result of None \<Rightarrow> RoleUndefined | Some m \<Rightarrow> member_role m)"

text \<open>
  \<open>getMemberRoleInOrganization\<close>: the direct operation when the provider has it, else the
  fallback, else \<open>undefined\<close>; a rejection of the provider is caught and thrown again.
\<close>

definition getMemberRoleInOrganization ::
  "Env \<Rightarrow> web_headers \<Rightarrow> Event list \<Rightarrow> (js_error + role_value) \<times> Event list" where
  "getMemberRoleInOrganization env headers tr =
     (case getActiveMemberRole (api env) of
        Some f \<Rightarrow>
          (case f headers of
             Inl error \<Rightarrow> (Inl error, tr @ [GetActiveMemberRoleCall headers])
           | Inr result \<Rightarrow> (Inr (role_of_member result), tr @ [GetActiveMemberRoleCall headers]))
      | None \<Rightarrow>
          (case getActiveMember (api env) of
             Some g \<Rightarrow>
               (case g headers of
                  Inl error \<Rightarrow> (Inl error, tr @ [GetActiveMemberCall headers])
                | Inr member \<Rightarrow> (Inr (role_of_member member), tr @ [GetActiveMemberCall headers]))
           | None \<Rightarrow> (Inr RoleUndefined, tr)))"

text \<open>\<open>session.session?.activeOrganizationId\<close>\<close>

definition activeOrgId :: "UserSession \<Rightarrow> string option" where
  "activeOrgId sess = (case session sess of None \<Rightarrow> None | Some d \<Rightarrow> activeOrganizationId d)"

text \<open>\<open>!activeOrgId\<close>: absent, or the empty string.\<close>

definition falsy_string :: "string option \<Rightarrow> bool" where
  "falsy_string v = (case v of None \<Rightarrow> True | Some s \<Rightarrow> s = [])"

definition checkOrgRole ::
  "Env \<Rightarrow> UserSession \<Rightarrow> web_headers \<Rightarrow> string list \<Rightarrow> Event list \<Rightarrow> bool \<times> Event list" where
  "checkOrgRole env sess headers requiredRoles tr =
     (if falsy_string (activeOrgId sess) then (False, tr)
      else
        (case getMemberRoleInOrganization env headers tr of
           (Inr memberRole, tr1) \<Rightarrow> (matchesRequiredRole memberRole requiredRoles, tr1)
         | (Inl error, tr1) \<Rightarrow> (False, tr1 @ [ConsoleError error])))"

text \<open>\<open>requiredRoles && requiredRoles.length > 0\<close>\<close>

definition non_empty :: "string list option \<Rightarrow> bool" where
  "non_empty v = (case v of None \<Rightarrow> False | Some rs \<Rightarrow> rs \<noteq> [])"

text \<open>
  \<open>canActivate\<close>: \<open>Inr True\<close> when the guard returns \<open>true\<close>, \<open>Inl e\<close> when it throws
  \<open>e\<close>; with the request view and the trace as the invocation leaves them.
\<close>

definition canActivate :: "Env \<Rightarrow> ExecutionContext \<Rightarrow> (js_error + bool) \<times> GuardState" where
  "canActivate env context =
     (let request = getRequestFromContext context;
          hs = fromNodeHeaders env (requestHeaders request);
          tr1 = [GetSessionCall hs]
      in case getSession (api env) hs of
           Inl e \<Rightarrow> (Inl e, \<lparr>view = request, trace = tr1\<rparr>)
         | Inr sess \<Rightarrow>
            (let request1 = request\<lparr>req_session := sess, req_user := map_option user sess\<rparr>;
                 isPublic = getAllAndOverride PUBLIC [getHandler context, getClass context];
                 tr2 = tr1 @ [ReflectorGet ''PUBLIC'']
             in if isPublic = Some True then (Inr True, \<lparr>view = request1, trace = tr2\<rparr>)
                else
                 (let isOptional = getAllAndOverride OPTIONAL [getHandler context, getClass context];
                      tr3 = tr2 @ [ReflectorGet ''OPTIONAL'']
                  in case sess of
                       None \<Rightarrow>
                         if isOptional = Some True
                         then (Inr True, \<lparr>view = request1, trace = tr3\<rparr>)
                         else (Inl (thrown env (getType context) UNAUTHORIZED),
                               \<lparr>view = request1, trace = tr3\<rparr>)
                     | Some s \<Rightarrow>
                        (let ctxType = getType context;
                             headers = fromNodeHeaders env (requestHeaders request1);
                             requiredRoles = getAllAndOverride ROLES [getHandler context, getClass context];
                             tr4 = tr3 @ [ReflectorGet ''ROLES'']
                         in if non_empty requiredRoles \<and> \<not> checkUserRole s (the requiredRoles)
                            then (Inl (thrown env ctxType FORBIDDEN), \<lparr>view = request1, trace = tr4\<rparr>)
                            else
                             (let requiredOrgRoles =
                                    getAllAndOverride ORG_ROLES [getHandler context, getClass context];
                                  tr5 = tr4 @ [ReflectorGet ''ORG_ROLES'']
                              in if non_empty requiredOrgRoles
                                 then
                                  (case checkOrgRole env s headers (the requiredOrgRoles) tr5 of
                                     (hasOrgRole, tr6) \<Rightarrow>
                                       if \<not> hasOrgRole
                                       then (Inl (thrown env ctxType FORBIDDEN),
                                             \<lparr>view = request1, trace = tr6\<rparr>)
                                       else (Inr True, \<lparr>view = request1, trace = tr6\<rparr>))
                                 else (Inr True, \<lparr>view = request1, trace = tr5\<rparr>))))))"

section \<open>Vocabulary of the properties\<close>

text \<open>The headers the session is fetched with.\<close>

definition sessionHeaders :: "Env \<Rightarrow> ExecutionContext \<Rightarrow> web_headers" where
  "sessionHeaders env context =
     fromNodeHeaders env (requestHeaders (getRequestFromContext context))"

text \<open>The four fields of a handler's policy, as \<open>canActivate\<close> reads them.\<close>

definition isPublic :: "ExecutionContext \<Rightarrow> bool" where
  "isPublic context =
     (getAllAndOverride PUBLIC [getHandler context, getClass context] = Some True)"

definition isOptional :: "ExecutionContext \<Rightarrow> bool" where
  "isOptional context =
     (getAllAndOverride OPTIONAL [getHandler context, getClass context] = Some True)"

definition requiredRoles :: "ExecutionContext \<Rightarrow> string list option" where
  "requiredRoles context = getAllAndOverride ROLES [getHandler context, getClass context]"

definition requiredOrgRoles :: "ExecutionContext \<Rightarrow> string list option" where
  "requiredOrgRoles context =
     getAllAndOverride ORG_ROLES [getHandler context, getClass context]"

text \<open>The request view with a fetched session attached.\<close>

definition attached :: "Request \<Rightarrow> UserSession option \<Rightarrow> Request" where
  "attached request sess = request\<lparr>req_session := sess, req_user := map_option user sess\<rparr>"

text \<open>The system-role stage lets the invocation through.\<close>

definition roles_pass :: "ExecutionContext \<Rightarrow> UserSession \<Rightarrow> bool" where
  "roles_pass context s =
     (\<not> non_empty (requiredRoles context) \<or> checkUserRole s (the (requiredRoles context)))"

text \<open>Events of the trace by kind.\<close>

fun is_getSession :: "Event \<Rightarrow> bool" where
  "is_getSession (GetSessionCall h) = True"
| "is_getSession ev = False"

fun is_lookup :: "Event \<Rightarrow> bool" where
  "is_lookup (GetActiveMemberRoleCall h) = True"
| "is_lookup (GetActiveMemberCall h) = True"
| "is_lookup ev = False"

definition lookup_called :: "Event list \<Rightarrow> bool" where
  "lookup_called tr = list_ex is_lookup tr"

text \<open>
  The set of granted roles a role value denotes, in the words of the specification: a
  string is split at its commas and each entry is trimmed, an array denotes its entries,
  and an absent or empty value denotes no role.
\<close>

fun spec_normalized_set :: "role_value \<Rightarrow> string set" where
  "spec_normalized_set RoleUndefined = {}"
| "spec_normalized_set (RoleArray rs) = set rs"
| "spec_normalized_set (RoleString s) =
     (if s = [] then {} else trim ` set (split (CHR '','') s))"

text \<open>\<open>Array.prototype.join\<close>, to write a list of entries as one separated string.\<close>

fun join :: "string \<Rightarrow> string list \<Rightarrow> string" where
  "join sep [] = []"
| "join sep [x] = x"
| "join sep (x # y # ys) = x @ sep @ join sep (y # ys)"

section \<open>Example invocations\<close>

definition no_metadata :: Metadata where
  "no_metadata = \<lparr>PUBLIC = None, OPTIONAL = None, ROLES = None, ORG_ROLES = None\<rparr>"

definition http_request :: Request where
  "http_request =
     \<lparr>req_headers = Some [(''cookie'', ''token'')], req_handshake = None,
      req_session = None, req_user = None\<rparr>"

definition session_of :: "role_value \<Rightarrow> string option \<Rightarrow> UserSession" where
  "session_of r org = \<lparr>user = \<lparr>role = r\<rparr>, session = Some \<lparr>activeOrganizationId = org\<rparr>\<rparr>"

definition provider ::
  "UserSession option \<Rightarrow> (web_headers \<Rightarrow> js_error + Member option) option \<Rightarrow> Env" where
  "provider sess lookup =
     \<lparr>api = \<lparr>getSession = (\<lambda>h. Inr sess), getActiveMemberRole = lookup,
              getActiveMember = None\<rparr>,
      fromNodeHeaders = (\<lambda>h. h), graphql_loadable = True, websockets_loadable = True\<rparr>"

definition handler :: "ContextType \<Rightarrow> Metadata \<Rightarrow> Metadata \<Rightarrow> ExecutionContext" where
  "handler t h c = \<lparr>getType = t, getHandler = h, getClass = c, getRequestFromContext = http_request\<rparr>"

definition roles_handler :: ExecutionContext where
  "roles_handler =
     handler Http (no_metadata\<lparr>ROLES := Some [''admin'', ''moderator'']\<rparr>) no_metadata"

definition protected_handler :: ExecutionContext where
  "protected_handler = handler Ws no_metadata no_metadata"

definition optional_handler :: ExecutionContext where
  "optional_handler = handler Http (no_metadata\<lparr>OPTIONAL := Some True\<rparr>) no_metadata"

definition optional_roles_handler :: ExecutionContext where
  "optional_roles_handler =
     handler Http (no_metadata\<lparr>OPTIONAL := Some True, ROLES := Some [''admin'']\<rparr>) no_metadata"

text \<open>A class that requires the organization role \<open>owner\<close>, with one public method.\<close>

definition public_org_handler :: ExecutionContext where
  "public_org_handler =
     handler Http (no_metadata\<lparr>PUBLIC := Some True\<rparr>)
       (no_metadata\<lparr>ORG_ROLES := Some [''owner'']\<rparr>)"

definition org_handler :: ExecutionContext where
  "org_handler = handler Http (no_metadata\<lparr>ORG_ROLES := Some [''owner'']\<rparr>) no_metadata"

definition both_handler :: ExecutionContext where
  "both_handler =
     handler Graphql (no_metadata\<lparr>ROLES := Some [''admin''], ORG_ROLES := Some [''owner'']\<rparr>)
       no_metadata"

definition failing_lookup :: "web_headers \<Rightarrow> js_error + Member option" where
  "failing_lookup h = Inl (Error ''organization plugin failure'')"

text \<open>A provider whose \<open>getSession\<close> rejects.\<close>

definition unreachable_provider :: Env where
  "unreachable_provider =
     \<lparr>api = \<lparr>getSession = (\<lambda>h. Inl (Error ''provider down'')),
              getActiveMemberRole = None, getActiveMember = None\<rparr>,
      fromNodeHeaders = (\<lambda>h. h), graphql_loadable = True, websockets_loadable = True\<rparr>"

section \<open>The branches of the guard\<close>

lemmas policy_defs = sessionHeaders_def isPublic_def isOptional_def requiredRoles_def
  requiredOrgRoles_def attached_def

lemma requestHeaders_attached [simp]:
  "requestHeaders (request\<lparr>req_session := a, req_user := b\<rparr>) = requestHeaders request"
  by (simp add: requestHeaders_def split: option.splits)

lemma canActivate_rejected_session:
  assumes "getSession (api env) (sessionHeaders env context) = Inl e"
  shows "canActivate env context =
    (Inl e, \<lparr>view = getRequestFromContext context,
              trace = [GetSessionCall (sessionHeaders env context)]\<rparr>)"
  using assms by (simp add: canActivate_def Let_def policy_defs)

lemma canActivate_public:
  assumes "getSession (api env) (sessionHeaders env context) = Inr sess"
    and "isPublic context"
  shows "canActivate env context =
    (Inr True, \<lparr>view = attached (getRequestFromContext context) sess,
       trace = [GetSessionCall (sessionHeaders env context), ReflectorGet ''PUBLIC'']\<rparr>)"
  using assms by (simp add: canActivate_def Let_def policy_defs)

lemma canActivate_anonymous:
  assumes "getSession (api env) (sessionHeaders env context) = Inr None"
    and "\<not> isPublic context"
  shows "canActivate env context =
    (if isOptional context then Inr True
     else Inl (thrown env (getType context) UNAUTHORIZED),
     \<lparr>view = attached (getRequestFromContext context) None,
       trace = [GetSessionCall (sessionHeaders env context), ReflectorGet ''PUBLIC'',
                ReflectorGet ''OPTIONAL'']\<rparr>)"
  using assms by (simp add: canActivate_def Let_def policy_defs)

lemma canActivate_role_denied:
  assumes "getSession (api env) (sessionHeaders env context) = Inr (Some s)"
    and "\<not> isPublic context"
    and "\<not> roles_pass context s"
  shows "canActivate env context =
    (Inl (thrown env (getType context) FORBIDDEN),
     \<lparr>view = attached (getRequestFromContext context) (Some s),
       trace = [GetSessionCall (sessionHeaders env context), ReflectorGet ''PUBLIC'',
                ReflectorGet ''OPTIONAL'', ReflectorGet ''ROLES'']\<rparr>)"
  using assms by (simp add: canActivate_def Let_def policy_defs roles_pass_def)

lemma canActivate_no_org_roles:
  assumes "getSession (api env) (sessionHeaders env context) = Inr (Some s)"
    and "\<not> isPublic context"
    and "roles_pass context s"
    and "\<not> non_empty (requiredOrgRoles context)"
  shows "canActivate env context =
    (Inr True,
     \<lparr>view = attached (getRequestFromContext context) (Some s),
       trace = [GetSessionCall (sessionHeaders env context), ReflectorGet ''PUBLIC'',
                ReflectorGet ''OPTIONAL'', ReflectorGet ''ROLES'',
                ReflectorGet ''ORG_ROLES'']\<rparr>)"
  using assms by (auto simp add: canActivate_def Let_def policy_defs roles_pass_def)

lemma canActivate_org_roles:
  assumes "getSession (api env) (sessionHeaders env context) = Inr (Some s)"
    and "\<not> isPublic context"
    and "roles_pass context s"
    and "non_empty (requiredOrgRoles context)"
  shows "canActivate env context =
    (case checkOrgRole env s (sessionHeaders env context) (the (requiredOrgRoles context))
           [GetSessionCall (sessionHeaders env context), ReflectorGet ''PUBLIC'',
            ReflectorGet ''OPTIONAL'', ReflectorGet ''ROLES'', ReflectorGet ''ORG_ROLES''] of
       (ok, tr) \<Rightarrow>
        (if ok then Inr True else Inl (thrown env (getType context) FORBIDDEN),
         \<lparr>view = attached (getRequestFromContext context) (Some s), trace = tr\<rparr>))"
  using assms
  by (auto simp add: canActivate_def Let_def policy_defs roles_pass_def split: prod.splits)

section \<open>The organization-role check\<close>

lemma checkOrgRole_trace:
  "\<exists>ex. snd (checkOrgRole env s h Q tr) = tr @ ex \<and> \<not> list_ex is_getSession ex"
  by (auto simp: checkOrgRole_def getMemberRoleInOrganization_def
      split: sum.splits option.splits prod.splits)

lemma checkOrgRole_no_org:
  "falsy_string (activeOrgId s) \<Longrightarrow> checkOrgRole env s h Q tr = (False, tr)"
  by (simp add: checkOrgRole_def)

lemma checkOrgRole_raise:
  assumes "\<not> falsy_string (activeOrgId s)"
    and "fst (getMemberRoleInOrganization env h tr0) = Inl e"
  shows "\<exists>c. is_lookup c \<and> checkOrgRole env s h Q tr = (False, tr @ [c, ConsoleError e])"
  using assms
  by (auto simp: checkOrgRole_def getMemberRoleInOrganization_def
      split: sum.splits option.splits)

text \<open>With a valid session, the role metadata is read exactly on handlers that are not
  public: there, and only there, the system-role check is made.\<close>

lemma role_metadata_read:
  assumes valid: "getSession (api env) (sessionHeaders env context) = Inr (Some s)"
  shows "ReflectorGet ''ROLES'' \<in> set (trace (snd (canActivate env context)))
         \<longleftrightarrow> \<not> isPublic context"
proof (cases "isPublic context")
  case True
  with valid show ?thesis by (simp add: canActivate_public)
next
  case False
  note guarded = this
  show ?thesis
  proof (cases "roles_pass context s")
    case False
    with valid guarded show ?thesis by (simp add: canActivate_role_denied)
  next
    case True
    note pass = this
    show ?thesis
    proof (cases "non_empty (requiredOrgRoles context)")
      case False
      with valid guarded pass show ?thesis by (simp add: canActivate_no_org_roles)
    next
      case True
      let ?tr = "[GetSessionCall (sessionHeaders env context), ReflectorGet ''PUBLIC'',
        ReflectorGet ''OPTIONAL'', ReflectorGet ''ROLES'', ReflectorGet ''ORG_ROLES'']"
      obtain ok tr where run: "checkOrgRole env s (sessionHeaders env context)
          (the (requiredOrgRoles context)) ?tr = (ok, tr)"
        by (cases "checkOrgRole env s (sessionHeaders env context)
          (the (requiredOrgRoles context)) ?tr")
      from checkOrgRole_trace [of env s "sessionHeaders env context"
          "the (requiredOrgRoles context)" ?tr] run
      obtain ex where "tr = ?tr @ ex" by auto
      with valid guarded pass True run show ?thesis
        by (simp add: canActivate_org_roles)
    qed
  qed
qed

section \<open>Splitting and joining\<close>

lemma split_no_separator: "c \<notin> set p \<Longrightarrow> split c p = [p]"
  by (induction p) (auto simp: Let_def)

lemma split_append_separator:
  "c \<notin> set p \<Longrightarrow> split c (p @ c # rest) = p # split c rest"
  by (induction p) (auto simp: Let_def)

lemma split_join:
  "ps \<noteq> [] \<Longrightarrow> \<forall>p\<in>set ps. c \<notin> set p \<Longrightarrow> split c (join [c] ps) = ps"
proof (induction "[c]" ps rule: join.induct)
  case 1
  then show ?case by simp
next
  case (2 x)
  then show ?case by (simp add: split_no_separator)
next
  case (3 x y ys)
  then show ?case by (simp add: split_append_separator)
qed

lemma join_not_Nil: "ps \<noteq> [] \<Longrightarrow> hd ps \<noteq> [] \<Longrightarrow> join sep ps \<noteq> []"
  by (cases "(sep, ps)" rule: join.cases) auto

lemma trim_Nil [simp]: "trim [] = []"
  by (simp add: trim_def)

section \<open>The rows of the error mapper\<close>

lemma coalesce_cases [simp]:
  "nullish d \<Longrightarrow> coalesce d b = b" "\<not> nullish d \<Longrightarrow> coalesce d b = d"
  by (simp_all add: coalesce_def)

lemma graphql_error_string: "graphql_error dflt (JString s) = GraphQLError (JString s) None"
  by (simp add: graphql_error_def)

lemma graphql_error_message:
  "map_of props ''message'' = Some m \<Longrightarrow> \<not> nullish m \<Longrightarrow>
   graphql_error dflt (JObject props) = GraphQLError m (Some (JObject props))"
  by (simp add: graphql_error_def)

lemma graphql_error_no_message:
  "map_of props ''message'' = None \<or> map_of props ''message'' = Some JUndefined
     \<or> map_of props ''message'' = Some JNull \<Longrightarrow>
   graphql_error dflt (JObject props) = GraphQLError (JString dflt) (Some (JObject props))"
  by (auto simp: graphql_error_def)

lemma graphql_error_other:
  "(\<forall>s. d \<noteq> JString s) \<Longrightarrow> (\<forall>props. d \<noteq> JObject props) \<Longrightarrow>
   \<exists>ext. graphql_error dflt d = GraphQLError (JString dflt) ext"
  by (cases d) (simp_all add: graphql_error_def)

lemma graphql_error_undefined:
  "graphql_error dflt JUndefined = GraphQLError (JString dflt) None"
  by (simp add: graphql_error_def)

text \<open>What the guard throws, by transport and kind.\<close>

lemma thrown_table:
  "thrown env Http UNAUTHORIZED
     = UnauthorizedException (JObject [(''code'', JString ''UNAUTHORIZED''),
                                       (''message'', JString ''Unauthorized'')])"
  "thrown env Http FORBIDDEN
     = ForbiddenException (JObject [(''code'', JString ''FORBIDDEN''),
                                    (''message'', JString ''Insufficient permissions'')])"
  "graphql_loadable env \<Longrightarrow>
     thrown env Graphql UNAUTHORIZED = GraphQLError (JString ''Unauthorized'') None"
  "graphql_loadable env \<Longrightarrow>
     thrown env Graphql FORBIDDEN = GraphQLError (JString ''Forbidden'') None"
  "websockets_loadable env \<Longrightarrow>
     thrown env Ws UNAUTHORIZED = WsException (JString ''UNAUTHORIZED'')"
  "websockets_loadable env \<Longrightarrow>
     thrown env Ws FORBIDDEN = WsException (JString ''FORBIDDEN'')"
  "thrown env Rpc UNAUTHORIZED = Error ''UNAUTHORIZED''"
  "thrown env Rpc FORBIDDEN = Error ''FORBIDDEN''"
  by (simp_all add: thrown_def getGraphQLError_def getWsException_def graphql_error_def)

section \<open>Role matching against the normalized set\<close>

lemma matches_iff_normalized:
  "matchesRequiredRole V R \<longleftrightarrow> spec_normalized_set V \<inter> set R \<noteq> {}"
  by (cases V) (auto simp: array_some_def array_includes_def list_ex_iff)

lemmas example_defs = provider_def handler_def session_of_def no_metadata_def
  http_request_def requestHeaders_def failing_lookup_def

lemmas eval_defs = checkUserRole_def array_some_def array_includes_def trim_def is_ws_def
  thrown_def coalesce_def non_empty_def

text \<open>
  C1. The system-role check of a session against a required-role list \<open>R\<close> succeeds
  exactly when the set of roles that \<open>user.role\<close> denotes (an absent or empty value no
  role, a string its trimmed comma-separated entries, an array its entries) meets \<open>R\<close>;
  an absent value, the empty string and the empty array match no \<open>R\<close>. In an invocation
  that makes the check (valid session, handler not public, \<open>R\<close> non-empty), a failed
  check makes the guard throw the FORBIDDEN error of the transport, and a passed check
  lets the invocation through when no organization role is required.
\<close>

theorem system_role_check:
  "(checkUserRole s R \<longleftrightarrow> spec_normalized_set (role (user s)) \<inter> set R \<noteq> {})
   \<and> \<not> matchesRequiredRole RoleUndefined R
   \<and> \<not> matchesRequiredRole (RoleString []) R
   \<and> \<not> matchesRequiredRole (RoleArray []) R
   \<and> (getSession (api env) (sessionHeaders env context) = Inr (Some s)
        \<and> \<not> isPublic context \<and> requiredRoles context = Some R \<and> R \<noteq> []
        \<and> \<not> checkUserRole s R
      \<longrightarrow> fst (canActivate env context) = Inl (thrown env (getType context) FORBIDDEN))
   \<and> (getSession (api env) (sessionHeaders env context) = Inr (Some s)
        \<and> \<not> isPublic context \<and> requiredRoles context = Some R \<and> R \<noteq> []
        \<and> checkUserRole s R \<and> \<not> non_empty (requiredOrgRoles context)
      \<longrightarrow> fst (canActivate env context) = Inr True)"
proof -
  have verdict: "checkUserRole s R \<longleftrightarrow> spec_normalized_set (role (user s)) \<inter> set R \<noteq> {}"
    unfolding checkUserRole_def by (rule matches_iff_normalized)
  have never: "\<not> matchesRequiredRole RoleUndefined R"
    "\<not> matchesRequiredRole (RoleString []) R"
    "\<not> matchesRequiredRole (RoleArray []) R"
    by (simp_all add: array_some_def)
  have denied: "fst (canActivate env context) = Inl (thrown env (getType context) FORBIDDEN)"
    if "getSession (api env) (sessionHeaders env context) = Inr (Some s)"
      and "\<not> isPublic context" and "requiredRoles context = Some R" and "R \<noteq> []"
      and "\<not> checkUserRole s R"
  proof -
    from that have "\<not> roles_pass context s" by (simp add: roles_pass_def non_empty_def)
    with that show ?thesis by (simp add: canActivate_role_denied)
  qed
  have granted: "fst (canActivate env context) = Inr True"
    if "getSession (api env) (sessionHeaders env context) = Inr (Some s)"
      and "\<not> isPublic context" and "requiredRoles context = Some R"
      and "checkUserRole s R" and "\<not> non_empty (requiredOrgRoles context)"
  proof -
    from that have "roles_pass context s" by (simp add: roles_pass_def)
    with that show ?thesis by (simp add: canActivate_no_org_roles)
  qed
  from verdict never denied granted show ?thesis by blast
qed

text \<open>
  The handler requires \<open>admin\<close> or \<open>moderator\<close>: a session whose role is \<open>user\<close> is
  rejected with the 403 exception, one whose role is \<open>user, moderator\<close> is let through.
\<close>

theorem system_role_check_witness:
  "\<not> checkUserRole (session_of (RoleString ''user'') None) [''admin'', ''moderator'']
   \<and> fst (canActivate (provider (Some (session_of (RoleString ''user'') None)) None)
            roles_handler)
       = Inl (ForbiddenException (JObject [(''code'', JString ''FORBIDDEN''),
               (''message'', JString ''Insufficient permissions'')]))
   \<and> checkUserRole (session_of (RoleString ''user, moderator'') None) [''admin'', ''moderator'']
   \<and> fst (canActivate (provider (Some (session_of (RoleString ''user, moderator'') None)) None)
            roles_handler)
       = Inr True"
proof -
  let ?R = "[''admin'', ''moderator'']"
  let ?u = "session_of (RoleString ''user'') None"
  let ?m = "session_of (RoleString ''user, moderator'') None"
  have policy: "\<not> isPublic roles_handler" "requiredRoles roles_handler = Some ?R"
    "\<not> non_empty (requiredOrgRoles roles_handler)"
    by (simp_all add: roles_handler_def policy_defs example_defs non_empty_def)
  have fetch: "getSession (api (provider (Some x) None))
      (sessionHeaders (provider (Some x) None) roles_handler) = Inr (Some x)" for x
    by (simp add: provider_def)
  have no: "\<not> checkUserRole ?u ?R" and yes: "checkUserRole ?m ?R"
    by (simp_all add: eval_defs session_of_def)
  have kind: "getType roles_handler = Http"
    by (simp add: roles_handler_def handler_def)
  have err: "thrown (provider (Some ?u) None) Http FORBIDDEN
      = ForbiddenException (JObject [(''code'', JString ''FORBIDDEN''),
               (''message'', JString ''Insufficient permissions'')])"
    by (simp add: eval_defs)
  from system_role_check [of ?u ?R "provider (Some ?u) None" roles_handler]
    policy fetch [of ?u] no kind err
  have denied: "fst (canActivate (provider (Some ?u) None) roles_handler)
      = Inl (ForbiddenException (JObject [(''code'', JString ''FORBIDDEN''),
               (''message'', JString ''Insufficient permissions'')]))"
    by simp
  from system_role_check [of ?m ?R "provider (Some ?m) None" roles_handler]
    policy fetch [of ?m] yes
  have granted: "fst (canActivate (provider (Some ?m) None) roles_handler) = Inr True"
    by simp
  from no denied yes granted show ?thesis by blast
qed

text \<open>
  C2. In an invocation with a valid session whose active organization is present, on a
  handler that requires organization roles, if the organization-role lookup is called
  and raises \<open>e\<close>, the guard throws the FORBIDDEN error of the transport: \<open>e\<close> is
  written to the console as the last effect of the invocation and is not what the caller
  receives.
\<close>

theorem org_lookup_failure_denies:
  "canActivate env context = (res, st)
   \<and> getSession (api env) (sessionHeaders env context) = Inr (Some s)
   \<and> requiredOrgRoles context = Some Q \<and> Q \<noteq> []
   \<and> activeOrgId s = Some org
   \<and> lookup_called (trace st)
   \<and> fst (getMemberRoleInOrganization env (sessionHeaders env context) []) = Inl e \<longrightarrow>
     res = Inl (thrown env (getType context) FORBIDDEN)
     \<and> last (trace st) = ConsoleError e"
proof (intro impI, elim conjE)
  assume run: "canActivate env context = (res, st)"
    and valid: "getSession (api env) (sessionHeaders env context) = Inr (Some s)"
    and org: "requiredOrgRoles context = Some Q" "Q \<noteq> []"
    and called: "lookup_called (trace st)"
    and raises: "fst (getMemberRoleInOrganization env (sessionHeaders env context) []) = Inl e"
  from org have required: "non_empty (requiredOrgRoles context)" by (simp add: non_empty_def)
  have guarded: "\<not> isPublic context"
  proof
    assume "isPublic context"
    with valid run called show False
      by (auto simp: canActivate_public lookup_called_def)
  qed
  have pass: "roles_pass context s"
  proof (rule ccontr)
    assume "\<not> roles_pass context s"
    with valid guarded run called show False
      by (auto simp: canActivate_role_denied lookup_called_def)
  qed
  have active: "\<not> falsy_string (activeOrgId s)"
  proof
    assume "falsy_string (activeOrgId s)"
    with valid guarded pass required run called show False
      by (auto simp: canActivate_org_roles checkOrgRole_no_org lookup_called_def)
  qed
  let ?tr = "[GetSessionCall (sessionHeaders env context), ReflectorGet ''PUBLIC'',
    ReflectorGet ''OPTIONAL'', ReflectorGet ''ROLES'', ReflectorGet ''ORG_ROLES'']"
  from checkOrgRole_raise [OF active raises, of "the (requiredOrgRoles context)" ?tr]
  obtain c where "checkOrgRole env s (sessionHeaders env context)
      (the (requiredOrgRoles context)) ?tr = (False, ?tr @ [c, ConsoleError e])"
    by blast
  with valid guarded pass required run
  show "res = Inl (thrown env (getType context) FORBIDDEN) \<and> last (trace st) = ConsoleError e"
    by (auto simp: canActivate_org_roles)
qed

text \<open>
  A member of organization \<open>org1\<close> calls a handler that requires the organization role
  \<open>owner\<close> while the provider's lookup fails: the caller gets the 403 exception.
\<close>

theorem org_lookup_failure_denies_witness:
  "lookup_called (trace (snd (canActivate
       (provider (Some (session_of (RoleString ''user'') (Some ''org1''))) (Some failing_lookup))
       org_handler)))
   \<and> fst (canActivate
       (provider (Some (session_of (RoleString ''user'') (Some ''org1''))) (Some failing_lookup))
       org_handler)
     = Inl (ForbiddenException (JObject [(''code'', JString ''FORBIDDEN''),
             (''message'', JString ''Insufficient permissions'')]))
   \<and> last (trace (snd (canActivate
       (provider (Some (session_of (RoleString ''user'') (Some ''org1''))) (Some failing_lookup))
       org_handler)))
     = ConsoleError (Error ''organization plugin failure'')"
proof -
  let ?s = "session_of (RoleString ''user'') (Some ''org1'')"
  let ?E = "provider (Some ?s) (Some failing_lookup)"
  have run: "canActivate ?E org_handler
      = (fst (canActivate ?E org_handler), snd (canActivate ?E org_handler))"
    by simp
  have valid: "getSession (api ?E) (sessionHeaders ?E org_handler) = Inr (Some ?s)"
    by (simp add: provider_def)
  have org: "requiredOrgRoles org_handler = Some [''owner'']" "[''owner''] \<noteq> []"
    by (simp_all add: org_handler_def policy_defs example_defs)
  have active: "activeOrgId ?s = Some ''org1''"
    by (simp add: activeOrgId_def session_of_def)
  have called: "lookup_called (trace (snd (canActivate ?E org_handler)))"
    by (simp add: canActivate_def Let_def org_handler_def example_defs eval_defs
        checkOrgRole_def getMemberRoleInOrganization_def activeOrgId_def falsy_string_def
        lookup_called_def)
  have raises: "fst (getMemberRoleInOrganization ?E (sessionHeaders ?E org_handler) [])
      = Inl (Error ''organization plugin failure'')"
    by (simp add: getMemberRoleInOrganization_def provider_def failing_lookup_def)
  have err: "thrown ?E (getType org_handler) FORBIDDEN
      = ForbiddenException (JObject [(''code'', JString ''FORBIDDEN''),
             (''message'', JString ''Insufficient permissions'')])"
    by (simp add: org_handler_def handler_def thrown_def)
  from org_lookup_failure_denies [of ?E org_handler "fst (canActivate ?E org_handler)"
      "snd (canActivate ?E org_handler)" ?s "[''owner'']" "''org1''"
      "Error ''organization plugin failure''"]
    run valid org active called raises err
  show ?thesis by simp
qed

text \<open>
  C3. In an invocation where the provider finds no session: on a handler marked optional
  and not public the guard returns \<open>true\<close> and leaves \<open>null\<close> in the \<open>session\<close> and
  \<open>user\<close> slots of the request view; on a handler neither public nor optional it throws
  the UNAUTHORIZED error of the transport.
\<close>

theorem anonymous_requests:
  "getSession (api env) (sessionHeaders env context) = Inr None \<and> \<not> isPublic context \<longrightarrow>
     (isOptional context \<longrightarrow>
        fst (canActivate env context) = Inr True
        \<and> req_session (view (snd (canActivate env context))) = None
        \<and> req_user (view (snd (canActivate env context))) = None)
     \<and> (\<not> isOptional context \<longrightarrow>
        fst (canActivate env context) = Inl (thrown env (getType context) UNAUTHORIZED))"
  by (simp add: canActivate_anonymous attached_def)

text \<open>
  Without a session, the optional handler runs with an empty \<open>session\<close> slot and the
  unmarked handler of a message gateway answers with the \<open>UNAUTHORIZED\<close> exception.
\<close>

theorem anonymous_requests_witness:
  "fst (canActivate (provider None None) optional_handler) = Inr True
   \<and> req_session (view (snd (canActivate (provider None None) optional_handler))) = None
   \<and> req_user (view (snd (canActivate (provider None None) optional_handler))) = None
   \<and> fst (canActivate (provider None None) protected_handler)
       = Inl (WsException (JString ''UNAUTHORIZED''))"
proof -
  let ?E = "provider None None"
  have none: "getSession (api ?E) (sessionHeaders ?E c) = Inr None" for c
    by (simp add: provider_def)
  have opt: "\<not> isPublic optional_handler" "isOptional optional_handler"
    by (simp_all add: optional_handler_def policy_defs example_defs)
  have prot: "\<not> isPublic protected_handler" "\<not> isOptional protected_handler"
    by (simp_all add: protected_handler_def policy_defs example_defs)
  have err: "thrown ?E (getType protected_handler) UNAUTHORIZED
      = WsException (JString ''UNAUTHORIZED'')"
    by (simp add: protected_handler_def handler_def thrown_def provider_def getWsException_def)
  from anonymous_requests [of ?E optional_handler] none opt
  have allowed: "fst (canActivate ?E optional_handler) = Inr True
      \<and> req_session (view (snd (canActivate ?E optional_handler))) = None
      \<and> req_user (view (snd (canActivate ?E optional_handler))) = None"
    by simp
  from anonymous_requests [of ?E protected_handler] none prot err
  have "fst (canActivate ?E protected_handler) = Inl (WsException (JString ''UNAUTHORIZED''))"
    by simp
  with allowed show ?thesis by simp
qed

text \<open>
  C4. Every invocation calls the provider's \<open>getSession\<close> exactly once, and that call is
  the first thing the invocation does, before any metadata is read; whatever the policy
  and the outcome, when the call resolves to \<open>sess\<close> (a session or \<open>null\<close>) the request
  view ends with \<open>session = sess\<close> and \<open>user\<close> the session's user, or \<open>null\<close> when there
  is no session.
\<close>

theorem session_fetched_once:
  "filter is_getSession (trace (snd (canActivate env context)))
     = [GetSessionCall (sessionHeaders env context)]
   \<and> hd (trace (snd (canActivate env context))) = GetSessionCall (sessionHeaders env context)
   \<and> (\<forall>sess. getSession (api env) (sessionHeaders env context) = Inr sess \<longrightarrow>
         req_session (view (snd (canActivate env context))) = sess
         \<and> req_user (view (snd (canActivate env context))) = map_option user sess)"
proof (cases "getSession (api env) (sessionHeaders env context)")
  case (Inl e)
  then show ?thesis by (simp add: canActivate_rejected_session)
next
  case (Inr sess)
  note fetched = this
  show ?thesis
  proof (cases "isPublic context")
    case True
    with fetched show ?thesis by (simp add: canActivate_public attached_def)
  next
    case False
    note guarded = this
    show ?thesis
    proof (cases sess)
      case None
      with fetched guarded show ?thesis by (simp add: canActivate_anonymous attached_def)
    next
      case (Some s)
      with fetched have valid: "getSession (api env) (sessionHeaders env context) = Inr (Some s)"
        by simp
      show ?thesis
      proof (cases "roles_pass context s")
        case False
        with valid guarded show ?thesis by (simp add: canActivate_role_denied attached_def)
      next
        case True
        note pass = this
        show ?thesis
        proof (cases "non_empty (requiredOrgRoles context)")
          case False
          with valid guarded pass show ?thesis
            by (simp add: canActivate_no_org_roles attached_def)
        next
          case True
          let ?tr = "[GetSessionCall (sessionHeaders env context), ReflectorGet ''PUBLIC'',
            ReflectorGet ''OPTIONAL'', ReflectorGet ''ROLES'', ReflectorGet ''ORG_ROLES'']"
          obtain ok tr where run: "checkOrgRole env s (sessionHeaders env context)
              (the (requiredOrgRoles context)) ?tr = (ok, tr)"
            by (cases "checkOrgRole env s (sessionHeaders env context)
              (the (requiredOrgRoles context)) ?tr")
          from checkOrgRole_trace [of env s "sessionHeaders env context"
              "the (requiredOrgRoles context)" ?tr] run
          obtain ex where ex: "tr = ?tr @ ex" "\<not> list_ex is_getSession ex"
            by auto
          from ex(2) have "filter is_getSession ex = []"
            by (simp add: list_ex_iff filter_empty_conv)
          with valid guarded pass True run ex(1) show ?thesis
            by (simp add: canActivate_org_roles attached_def)
        qed
      qed
    qed
  qed
qed

text \<open>
  A signed-in user without the required role is rejected, and the request view still
  carries the session and its user after the single fetch.
\<close>

theorem session_fetched_once_witness:
  "filter is_getSession (trace (snd (canActivate
       (provider (Some (session_of (RoleString ''user'') None)) None) roles_handler)))
     = [GetSessionCall [(''cookie'', ''token'')]]
   \<and> req_session (view (snd (canActivate
       (provider (Some (session_of (RoleString ''user'') None)) None) roles_handler)))
     = Some (session_of (RoleString ''user'') None)
   \<and> req_user (view (snd (canActivate
       (provider (Some (session_of (RoleString ''user'') None)) None) roles_handler)))
     = Some \<lparr>role = RoleString ''user''\<rparr>"
proof -
  let ?s = "session_of (RoleString ''user'') None"
  let ?E = "provider (Some ?s) None"
  have valid: "getSession (api ?E) (sessionHeaders ?E roles_handler) = Inr (Some ?s)"
    by (simp add: provider_def)
  have hs: "sessionHeaders ?E roles_handler = [(''cookie'', ''token'')]"
    by (simp add: roles_handler_def policy_defs example_defs)
  have u: "map_option user (Some ?s) = Some \<lparr>role = RoleString ''user''\<rparr>"
    by (simp add: session_of_def)
  from session_fetched_once [of ?E roles_handler] valid
  have "filter is_getSession (trace (snd (canActivate ?E roles_handler)))
       = [GetSessionCall (sessionHeaders ?E roles_handler)]
     \<and> req_session (view (snd (canActivate ?E roles_handler))) = Some ?s
     \<and> req_user (view (snd (canActivate ?E roles_handler))) = map_option user (Some ?s)"
    by blast
  with hs u show ?thesis by simp
qed

text \<open>
  C5 (as amended). In an invocation with a valid session that has no active
  organization, on a handler that is not public and requires organization roles, the
  guard throws the FORBIDDEN error of the transport and makes no organization-role
  lookup call to the provider.
\<close>

theorem no_active_org_denied:
  "getSession (api env) (sessionHeaders env context) = Inr (Some s)
   \<and> \<not> isPublic context
   \<and> requiredOrgRoles context = Some Q \<and> Q \<noteq> []
   \<and> activeOrgId s = None \<longrightarrow>
     fst (canActivate env context) = Inl (thrown env (getType context) FORBIDDEN)
     \<and> \<not> lookup_called (trace (snd (canActivate env context)))"
proof (intro impI, elim conjE)
  assume valid: "getSession (api env) (sessionHeaders env context) = Inr (Some s)"
    and guarded: "\<not> isPublic context"
    and org: "requiredOrgRoles context = Some Q" "Q \<noteq> []"
    and absent: "activeOrgId s = None"
  show "fst (canActivate env context) = Inl (thrown env (getType context) FORBIDDEN)
     \<and> \<not> lookup_called (trace (snd (canActivate env context)))"
  proof (cases "roles_pass context s")
    case False
    with valid guarded show ?thesis
      by (simp add: canActivate_role_denied lookup_called_def)
  next
    case True
    from org have "non_empty (requiredOrgRoles context)" by (simp add: non_empty_def)
    moreover from absent have "falsy_string (activeOrgId s)" by (simp add: falsy_string_def)
    ultimately show ?thesis using valid guarded True
      by (simp add: canActivate_org_roles checkOrgRole_no_org lookup_called_def)
  qed
qed

text \<open>
  A system administrator without an active organization calls the handler that requires
  the organization role \<open>owner\<close>: 403, and the provider's lookup is never called.
\<close>

theorem no_active_org_denied_witness:
  "fst (canActivate
       (provider (Some (session_of (RoleString ''admin'') None)) (Some failing_lookup))
       org_handler)
     = Inl (ForbiddenException (JObject [(''code'', JString ''FORBIDDEN''),
             (''message'', JString ''Insufficient permissions'')]))
   \<and> \<not> lookup_called (trace (snd (canActivate
       (provider (Some (session_of (RoleString ''admin'') None)) (Some failing_lookup))
       org_handler)))"
proof -
  let ?s = "session_of (RoleString ''admin'') None"
  let ?E = "provider (Some ?s) (Some failing_lookup)"
  have valid: "getSession (api ?E) (sessionHeaders ?E org_handler) = Inr (Some ?s)"
    by (simp add: provider_def)
  have policy: "\<not> isPublic org_handler" "requiredOrgRoles org_handler = Some [''owner'']"
    "[''owner''] \<noteq> []"
    by (simp_all add: org_handler_def policy_defs example_defs)
  have absent: "activeOrgId ?s = None"
    by (simp add: activeOrgId_def session_of_def)
  have err: "thrown ?E (getType org_handler) FORBIDDEN
      = ForbiddenException (JObject [(''code'', JString ''FORBIDDEN''),
             (''message'', JString ''Insufficient permissions'')])"
    by (simp add: org_handler_def handler_def thrown_def)
  from no_active_org_denied [of ?E org_handler ?s "[''owner'']"] valid policy absent err
  show ?thesis by simp
qed

text \<open>
  C5 as stated fails on a public handler: the class requires the organization role
  \<open>owner\<close>, the method is public, the caller has a valid session without an active
  organization, and the guard returns \<open>true\<close>.
\<close>

theorem public_handler_without_active_org:
  "requiredOrgRoles public_org_handler = Some [''owner'']
   \<and> getSession (api (provider (Some (session_of (RoleString ''admin'') None)) None))
        (sessionHeaders (provider (Some (session_of (RoleString ''admin'') None)) None)
           public_org_handler)
       = Inr (Some (session_of (RoleString ''admin'') None))
   \<and> activeOrgId (session_of (RoleString ''admin'') None) = None
   \<and> fst (canActivate (provider (Some (session_of (RoleString ''admin'') None)) None)
            public_org_handler) = Inr True"
  by (simp add: canActivate_def Let_def public_org_handler_def policy_defs example_defs
      activeOrgId_def)

text \<open>
  C6 (as amended). Let \<open>S\<close> be a list of role names that are non-empty, contain no
  comma and have no white space at their ends. Role matching gives the same verdict
  against every required-role list whether \<open>S\<close> is presented as the list or as one
  comma-separated string with the entries \<open>ps\<close>: the names of \<open>S\<close> in order, each with
  or without white space around it (\<open>map trim ps = S\<close>). A single name is the case of
  one entry.
\<close>

theorem role_forms_agree:
  "(\<forall>r\<in>set S. r \<noteq> [] \<and> CHR '','' \<notin> set r \<and> trim r = r)
   \<and> (\<forall>p\<in>set ps. CHR '','' \<notin> set p) \<and> map trim ps = S \<longrightarrow>
     matchesRequiredRole (RoleString (join '','' ps)) R = matchesRequiredRole (RoleArray S) R"
proof (intro impI, elim conjE)
  assume commas: "\<forall>p\<in>set ps. CHR '','' \<notin> set p"
    and names: "map trim ps = S"
    and "\<forall>r\<in>set S. r \<noteq> [] \<and> CHR '','' \<notin> set r \<and> trim r = r"
  then have named: "[] \<notin> set S" by auto
  show "matchesRequiredRole (RoleString (join '','' ps)) R = matchesRequiredRole (RoleArray S) R"
  proof (cases "ps = []")
    case True
    with names show ?thesis by (auto simp: array_some_def)
  next
    case False
    from names named have "\<forall>p\<in>set ps. trim p \<noteq> []" by force
    then have "\<forall>p\<in>set ps. p \<noteq> []" by auto
    with False have "hd ps \<noteq> []" by simp
    with False have filled: "join '','' ps \<noteq> []" by (rule join_not_Nil)
    from False commas have pieces: "split (CHR '','') (join '','' ps) = ps"
      by (rule split_join)
    from names have "array_some S (\<lambda>r. array_includes R r)
        = array_some ps (\<lambda>r. array_includes R (trim r))"
      by (auto simp: array_some_def list_ex_iff)
    with filled pieces show ?thesis by simp
  qed
qed

text \<open>The string \<open>user, admin\<close> against the list of \<open>user\<close> and \<open>admin\<close>.\<close>

theorem role_forms_agree_witness:
  "matchesRequiredRole (RoleString ''user, admin '') [''admin'']
     = matchesRequiredRole (RoleArray [''user'', ''admin'']) [''admin'']"
proof -
  have "\<forall>r\<in>set [''user'', ''admin'']. r \<noteq> [] \<and> CHR '','' \<notin> set r \<and> trim r = r"
    by (simp add: trim_def is_ws_def)
  moreover have "\<forall>p\<in>set [''user'', '' admin '']. CHR '','' \<notin> set p" by simp
  moreover have "map trim [''user'', '' admin ''] = [''user'', ''admin'']"
    by (simp add: trim_def is_ws_def)
  moreover have "join '','' [''user'', '' admin ''] = ''user, admin ''" by simp
  ultimately show ?thesis
    using role_forms_agree [of "[''user'', ''admin'']" "[''user'', '' admin '']" "[''admin'']"]
    by simp
qed

text \<open>
  C6 as stated fails for a name with white space at an end (array entries are not
  trimmed), for a name that contains a comma (the string is split there), and for the
  empty name (the empty string is no role value): the list and the string of the same
  single name get different verdicts.
\<close>

theorem role_forms_differ:
  "matchesRequiredRole (RoleArray ['' admin'']) [''admin''] = False
   \<and> matchesRequiredRole (RoleString (join '','' ['' admin''])) [''admin''] = True
   \<and> matchesRequiredRole (RoleArray [''a,b'']) [''a,b''] = True
   \<and> matchesRequiredRole (RoleString (join '','' [''a,b''])) [''a,b''] = False
   \<and> matchesRequiredRole (RoleArray [[]]) [[]] = True
   \<and> matchesRequiredRole (RoleString (join '','' [[]])) [[]] = False"
  by (simp add: array_some_def array_includes_def trim_def is_ws_def)

text \<open>
  C7 (as amended). On a handler marked public, whenever the provider's \<open>getSession\<close>
  resolves (to a session or to \<open>null\<close>), the guard returns \<open>true\<close>, whatever roles
  or organization roles the handler or its class declare; the fetched session and its
  user are in the request view all the same.
\<close>

theorem public_always_allowed:
  "isPublic context \<and> getSession (api env) (sessionHeaders env context) = Inr sess \<longrightarrow>
     fst (canActivate env context) = Inr True
     \<and> req_session (view (snd (canActivate env context))) = sess
     \<and> req_user (view (snd (canActivate env context))) = map_option user sess"
  by (simp add: canActivate_public attached_def)

text \<open>
  The public method of a class that requires the organization role \<open>owner\<close>: allowed
  without a session, and allowed for a signed-in user, whose session is attached.
\<close>

theorem public_always_allowed_witness:
  "fst (canActivate (provider None None) public_org_handler) = Inr True
   \<and> fst (canActivate (provider (Some (session_of (RoleArray [''user'']) None)) None)
            public_org_handler) = Inr True
   \<and> req_session (view (snd (canActivate
        (provider (Some (session_of (RoleArray [''user'']) None)) None) public_org_handler)))
      = Some (session_of (RoleArray [''user'']) None)
   \<and> req_user (view (snd (canActivate
        (provider (Some (session_of (RoleArray [''user'']) None)) None) public_org_handler)))
      = Some \<lparr>role = RoleArray [''user'']\<rparr>"
proof -
  let ?s = "session_of (RoleArray [''user'']) None"
  have pub: "isPublic public_org_handler"
    by (simp add: public_org_handler_def policy_defs example_defs)
  have fetch: "getSession (api (provider x None))
      (sessionHeaders (provider x None) public_org_handler) = Inr x" for x
    by (simp add: provider_def)
  have u: "map_option user (Some ?s) = Some \<lparr>role = RoleArray [''user'']\<rparr>"
    by (simp add: session_of_def)
  from public_always_allowed [of public_org_handler "provider None None" None]
    pub fetch [of None]
  have anonymous: "fst (canActivate (provider None None) public_org_handler) = Inr True"
    by simp
  from public_always_allowed [of public_org_handler "provider (Some ?s) None" "Some ?s"]
    pub fetch [of "Some ?s"] u
  have "fst (canActivate (provider (Some ?s) None) public_org_handler) = Inr True
     \<and> req_session (view (snd (canActivate (provider (Some ?s) None) public_org_handler)))
        = Some ?s
     \<and> req_user (view (snd (canActivate (provider (Some ?s) None) public_org_handler)))
        = Some \<lparr>role = RoleArray [''user'']\<rparr>"
    by simp
  with anonymous show ?thesis by simp
qed

text \<open>
  C7 as stated fails when the provider rejects: the session is fetched before the public
  mark is read and outside any \<open>try\<close>, so the public method throws the provider's
  error instead of letting the request through.
\<close>

theorem public_handler_provider_rejects:
  "isPublic public_org_handler
   \<and> getSession (api unreachable_provider)
        (sessionHeaders unreachable_provider public_org_handler)
       = Inl (Error ''provider down'')
   \<and> fst (canActivate unreachable_provider public_org_handler)
       = Inl (Error ''provider down'')
   \<and> fst (canActivate unreachable_provider public_org_handler) \<noteq> Inr True"
  by (simp add: canActivate_def Let_def public_org_handler_def unreachable_provider_def
      policy_defs handler_def no_metadata_def http_request_def requestHeaders_def)

text \<open>
  C8. On a handler marked optional, not public, with a non-empty required-role list, an
  invocation without a session is allowed: the guard returns before it reads the role
  metadata, so no role requirement is evaluated for the anonymous caller.
\<close>

theorem optional_skips_role_checks:
  "getSession (api env) (sessionHeaders env context) = Inr None
   \<and> \<not> isPublic context \<and> isOptional context
   \<and> requiredRoles context = Some R \<and> R \<noteq> [] \<longrightarrow>
     fst (canActivate env context) = Inr True
     \<and> ReflectorGet ''ROLES'' \<notin> set (trace (snd (canActivate env context)))
     \<and> ReflectorGet ''ORG_ROLES'' \<notin> set (trace (snd (canActivate env context)))"
  by (simp add: canActivate_anonymous)

text \<open>An optional handler that requires \<open>admin\<close>, called without a session.\<close>

theorem optional_skips_role_checks_witness:
  "requiredRoles optional_roles_handler = Some [''admin'']
   \<and> fst (canActivate (provider None None) optional_roles_handler) = Inr True
   \<and> ReflectorGet ''ROLES''
       \<notin> set (trace (snd (canActivate (provider None None) optional_roles_handler)))"
proof -
  let ?E = "provider None None"
  have none: "getSession (api ?E) (sessionHeaders ?E optional_roles_handler) = Inr None"
    by (simp add: provider_def)
  have policy: "\<not> isPublic optional_roles_handler" "isOptional optional_roles_handler"
    "requiredRoles optional_roles_handler = Some [''admin'']" "[''admin''] \<noteq> []"
    by (simp_all add: optional_roles_handler_def policy_defs example_defs)
  from optional_skips_role_checks [of ?E optional_roles_handler "[''admin'']"] none policy
  show ?thesis by simp
qed

text \<open>
  C9. The error mapper, for a detail \<open>d\<close> (\<open>undefined\<close> when none is given). For http:
  an \<open>UnauthorizedException\<close> (status 401) or a \<open>ForbiddenException\<close> (status 403) built
  from \<open>d\<close>, or from the default body with \<open>code\<close> and \<open>message\<close> when \<open>d\<close> is
  \<open>undefined\<close> or \<open>null\<close>. For ws, the websockets package being loadable: a
  \<open>WsException\<close> carrying \<open>d\<close>, or the literal \<open>UNAUTHORIZED\<close> or \<open>FORBIDDEN\<close>. For
  rpc: an \<open>Error\<close> carrying the literal. For graphql, the graphql package being
  loadable: a \<open>GraphQLError\<close> whose message is \<open>d\<close> when \<open>d\<close> is a string, the
  \<open>message\<close> field of \<open>d\<close> when \<open>d\<close> is an object that has one, and \<open>Unauthorized\<close> or
  \<open>Forbidden\<close> otherwise.
\<close>

theorem error_mapper_table:
  "(nullish d \<longrightarrow>
      AuthContextErrorMap env Http UNAUTHORIZED d
        = Inr (UnauthorizedException (JObject [(''code'', JString ''UNAUTHORIZED''),
                                               (''message'', JString ''Unauthorized'')]))
      \<and> AuthContextErrorMap env Http FORBIDDEN d
        = Inr (ForbiddenException (JObject [(''code'', JString ''FORBIDDEN''),
                                            (''message'', JString ''Insufficient permissions'')])))
   \<and> (\<not> nullish d \<longrightarrow>
      AuthContextErrorMap env Http UNAUTHORIZED d = Inr (UnauthorizedException d)
      \<and> AuthContextErrorMap env Http FORBIDDEN d = Inr (ForbiddenException d))
   \<and> getStatus (UnauthorizedException b) = Some 401
   \<and> getStatus (ForbiddenException b) = Some 403
   \<and> (websockets_loadable env \<and> nullish d \<longrightarrow>
      AuthContextErrorMap env Ws UNAUTHORIZED d = Inr (WsException (JString ''UNAUTHORIZED''))
      \<and> AuthContextErrorMap env Ws FORBIDDEN d = Inr (WsException (JString ''FORBIDDEN'')))
   \<and> (websockets_loadable env \<and> \<not> nullish d \<longrightarrow>
      AuthContextErrorMap env Ws UNAUTHORIZED d = Inr (WsException d)
      \<and> AuthContextErrorMap env Ws FORBIDDEN d = Inr (WsException d))
   \<and> AuthContextErrorMap env Rpc UNAUTHORIZED d = Inr (Error ''UNAUTHORIZED'')
   \<and> AuthContextErrorMap env Rpc FORBIDDEN d = Inr (Error ''FORBIDDEN'')
   \<and> (graphql_loadable env \<longrightarrow>
      AuthContextErrorMap env Graphql UNAUTHORIZED (JString s)
        = Inr (GraphQLError (JString s) None)
      \<and> AuthContextErrorMap env Graphql FORBIDDEN (JString s)
        = Inr (GraphQLError (JString s) None)
      \<and> AuthContextErrorMap env Graphql UNAUTHORIZED JUndefined
        = Inr (GraphQLError (JString ''Unauthorized'') None)
      \<and> AuthContextErrorMap env Graphql FORBIDDEN JUndefined
        = Inr (GraphQLError (JString ''Forbidden'') None))
   \<and> (graphql_loadable env \<and> map_of props ''message'' = Some m \<and> \<not> nullish m \<longrightarrow>
      AuthContextErrorMap env Graphql UNAUTHORIZED (JObject props)
        = Inr (GraphQLError m (Some (JObject props)))
      \<and> AuthContextErrorMap env Graphql FORBIDDEN (JObject props)
        = Inr (GraphQLError m (Some (JObject props))))
   \<and> (graphql_loadable env
       \<and> (map_of props ''message'' = None \<or> map_of props ''message'' = Some JUndefined
            \<or> map_of props ''message'' = Some JNull) \<longrightarrow>
      AuthContextErrorMap env Graphql UNAUTHORIZED (JObject props)
        = Inr (GraphQLError (JString ''Unauthorized'') (Some (JObject props)))
      \<and> AuthContextErrorMap env Graphql FORBIDDEN (JObject props)
        = Inr (GraphQLError (JString ''Forbidden'') (Some (JObject props))))
   \<and> (graphql_loadable env \<and> (\<forall>s. d \<noteq> JString s) \<and> (\<forall>props. d \<noteq> JObject props) \<longrightarrow>
      (\<exists>ext. AuthContextErrorMap env Graphql UNAUTHORIZED d
        = Inr (GraphQLError (JString ''Unauthorized'') ext))
      \<and> (\<exists>ext. AuthContextErrorMap env Graphql FORBIDDEN d
        = Inr (GraphQLError (JString ''Forbidden'') ext)))"
proof -
  have http: "AuthContextErrorMap env Http UNAUTHORIZED d
        = Inr (UnauthorizedException (JObject [(''code'', JString ''UNAUTHORIZED''),
                                               (''message'', JString ''Unauthorized'')]))"
      "AuthContextErrorMap env Http FORBIDDEN d
        = Inr (ForbiddenException (JObject [(''code'', JString ''FORBIDDEN''),
                                            (''message'', JString ''Insufficient permissions'')]))"
    if "nullish d"
    using that by simp_all
  have http_detail: "AuthContextErrorMap env Http UNAUTHORIZED d = Inr (UnauthorizedException d)"
    "AuthContextErrorMap env Http FORBIDDEN d = Inr (ForbiddenException d)"
    if "\<not> nullish d"
    using that by simp_all
  have ws: "AuthContextErrorMap env Ws UNAUTHORIZED d = Inr (WsException (JString ''UNAUTHORIZED''))"
    "AuthContextErrorMap env Ws FORBIDDEN d = Inr (WsException (JString ''FORBIDDEN''))"
    if "websockets_loadable env" "nullish d"
    using that by (simp_all add: getWsException_def)
  have ws_detail: "AuthContextErrorMap env Ws UNAUTHORIZED d = Inr (WsException d)"
    "AuthContextErrorMap env Ws FORBIDDEN d = Inr (WsException d)"
    if "websockets_loadable env" "\<not> nullish d"
    using that by (simp_all add: getWsException_def)
  have gql_other: "\<exists>ext. AuthContextErrorMap env Graphql UNAUTHORIZED d
        = Inr (GraphQLError (JString ''Unauthorized'') ext)"
      "\<exists>ext. AuthContextErrorMap env Graphql FORBIDDEN d
        = Inr (GraphQLError (JString ''Forbidden'') ext)"
    if "graphql_loadable env" "\<forall>s. d \<noteq> JString s" "\<forall>props. d \<noteq> JObject props"
    using that graphql_error_other [of d] by (simp_all add: getGraphQLError_def)
  show ?thesis
    using http http_detail ws ws_detail gql_other
    by (simp add: getGraphQLError_def graphql_error_string graphql_error_undefined graphql_error_message
        graphql_error_no_message)
qed

text \<open>
  The rows at concrete details: no detail, the string \<open>no\<close>, an object with a message
  and an object without one.
\<close>

theorem error_mapper_table_witness:
  "AuthContextErrorMap (provider None None) Http UNAUTHORIZED JUndefined
     = Inr (UnauthorizedException (JObject [(''code'', JString ''UNAUTHORIZED''),
                                            (''message'', JString ''Unauthorized'')]))
   \<and> AuthContextErrorMap (provider None None) Http FORBIDDEN (JString ''no'')
     = Inr (ForbiddenException (JString ''no''))
   \<and> AuthContextErrorMap (provider None None) Ws FORBIDDEN JUndefined
     = Inr (WsException (JString ''FORBIDDEN''))
   \<and> AuthContextErrorMap (provider None None) Ws UNAUTHORIZED (JString ''no'')
     = Inr (WsException (JString ''no''))
   \<and> AuthContextErrorMap (provider None None) Graphql UNAUTHORIZED (JString ''no'')
     = Inr (GraphQLError (JString ''no'') None)
   \<and> AuthContextErrorMap (provider None None) Graphql FORBIDDEN
        (JObject [(''message'', JString ''Denied'')])
     = Inr (GraphQLError (JString ''Denied'') (Some (JObject [(''message'', JString ''Denied'')])))
   \<and> AuthContextErrorMap (provider None None) Graphql UNAUTHORIZED
        (JObject [(''code'', JNumber 7)])
     = Inr (GraphQLError (JString ''Unauthorized'') (Some (JObject [(''code'', JNumber 7)])))
   \<and> (\<exists>ext. AuthContextErrorMap (provider None None) Graphql FORBIDDEN JUndefined
     = Inr (GraphQLError (JString ''Forbidden'') ext))"
proof -
  let ?E = "provider None None"
  have loadable: "websockets_loadable ?E" "graphql_loadable ?E"
    by (simp_all add: provider_def)
  have absent: "nullish JUndefined" "\<forall>s. JUndefined \<noteq> JString s"
    "\<forall>props. JUndefined \<noteq> JObject props"
    by simp_all
  have given: "\<not> nullish (JString ''no'')" by simp
  have message: "map_of [(''message'', JString ''Denied'')] ''message'' = Some (JString ''Denied'')"
    "\<not> nullish (JString ''Denied'')"
    by simp_all
  have no_message: "map_of [(''code'', JNumber 7)] ''message'' = None" by simp
  from error_mapper_table [of JUndefined ?E _ _ "[(''message'', JString ''Denied'')]"
      "JString ''Denied''"] loadable absent message
  have first: "AuthContextErrorMap ?E Http UNAUTHORIZED JUndefined
       = Inr (UnauthorizedException (JObject [(''code'', JString ''UNAUTHORIZED''),
                                              (''message'', JString ''Unauthorized'')]))
     \<and> AuthContextErrorMap ?E Ws FORBIDDEN JUndefined = Inr (WsException (JString ''FORBIDDEN''))
     \<and> AuthContextErrorMap ?E Graphql FORBIDDEN (JObject [(''message'', JString ''Denied'')])
       = Inr (GraphQLError (JString ''Denied'')
               (Some (JObject [(''message'', JString ''Denied'')])))
     \<and> (\<exists>ext. AuthContextErrorMap ?E Graphql FORBIDDEN JUndefined
       = Inr (GraphQLError (JString ''Forbidden'') ext))"
    by blast
  from error_mapper_table [of "JString ''no''" ?E _ "''no''" "[(''code'', JNumber 7)]"]
    loadable given no_message
  have second: "AuthContextErrorMap ?E Http FORBIDDEN (JString ''no'')
       = Inr (ForbiddenException (JString ''no''))
     \<and> AuthContextErrorMap ?E Graphql UNAUTHORIZED (JString ''no'')
       = Inr (GraphQLError (JString ''no'') None)
     \<and> AuthContextErrorMap ?E Ws UNAUTHORIZED (JString ''no'') = Inr (WsException (JString ''no''))
     \<and> AuthContextErrorMap ?E Graphql UNAUTHORIZED (JObject [(''code'', JNumber 7)])
       = Inr (GraphQLError (JString ''Unauthorized'') (Some (JObject [(''code'', JNumber 7)])))"
    by blast
  from first second show ?thesis by blast
qed

text \<open>
  C10. In an invocation with a valid session on a handler, not public, that requires
  both system roles and organization roles, a failed system-role check makes the guard
  throw the FORBIDDEN error of the transport before it reads the organization-role
  metadata: the provider receives no organization-role lookup call.
\<close>

theorem role_failure_precedes_org_lookup:
  "getSession (api env) (sessionHeaders env context) = Inr (Some s)
   \<and> \<not> isPublic context
   \<and> requiredRoles context = Some R \<and> R \<noteq> []
   \<and> requiredOrgRoles context = Some Q \<and> Q \<noteq> []
   \<and> \<not> checkUserRole s R \<longrightarrow>
     fst (canActivate env context) = Inl (thrown env (getType context) FORBIDDEN)
     \<and> ReflectorGet ''ORG_ROLES'' \<notin> set (trace (snd (canActivate env context)))
     \<and> \<not> lookup_called (trace (snd (canActivate env context)))"
proof (intro impI, elim conjE)
  assume valid: "getSession (api env) (sessionHeaders env context) = Inr (Some s)"
    and guarded: "\<not> isPublic context"
    and roles: "requiredRoles context = Some R" "R \<noteq> []"
    and fails: "\<not> checkUserRole s R"
  from roles fails have "\<not> roles_pass context s"
    by (simp add: roles_pass_def non_empty_def)
  with valid guarded
  show "fst (canActivate env context) = Inl (thrown env (getType context) FORBIDDEN)
     \<and> ReflectorGet ''ORG_ROLES'' \<notin> set (trace (snd (canActivate env context)))
     \<and> \<not> lookup_called (trace (snd (canActivate env context)))"
    by (simp add: canActivate_role_denied lookup_called_def)
qed

text \<open>
  An organization owner whose system role is \<open>user\<close> calls a resolver that requires the
  system role \<open>admin\<close> and the organization role \<open>owner\<close>: the GraphQL error
  \<open>Forbidden\<close>, and no lookup.
\<close>

theorem role_failure_precedes_org_lookup_witness:
  "fst (canActivate
       (provider (Some (session_of (RoleString ''user'') (Some ''org1''))) (Some failing_lookup))
       both_handler)
     = Inl (GraphQLError (JString ''Forbidden'') None)
   \<and> \<not> lookup_called (trace (snd (canActivate
       (provider (Some (session_of (RoleString ''user'') (Some ''org1''))) (Some failing_lookup))
       both_handler)))"
proof -
  let ?s = "session_of (RoleString ''user'') (Some ''org1'')"
  let ?E = "provider (Some ?s) (Some failing_lookup)"
  have valid: "getSession (api ?E) (sessionHeaders ?E both_handler) = Inr (Some ?s)"
    by (simp add: provider_def)
  have policy: "\<not> isPublic both_handler" "requiredRoles both_handler = Some [''admin'']"
    "[''admin''] \<noteq> []" "requiredOrgRoles both_handler = Some [''owner'']" "[''owner''] \<noteq> []"
    by (simp_all add: both_handler_def policy_defs example_defs)
  have fails: "\<not> checkUserRole ?s [''admin'']"
    by (simp add: eval_defs session_of_def)
  have err: "thrown ?E (getType both_handler) FORBIDDEN = GraphQLError (JString ''Forbidden'') None"
    by (simp add: both_handler_def handler_def thrown_def provider_def getGraphQLError_def
        graphql_error_def)
  from role_failure_precedes_org_lookup [of ?E both_handler ?s "[''admin'']" "[''owner'']"]
    valid policy fails err
  show ?thesis by simp
qed

end
